theory Spec2Isabelle
  imports Complex_Main "HOL-Library.Sublist" "HOL-Library.AList" "HOL-Library.Product_Lexorder"
    "HOL-Library.Code_Target_Numeral"
begin

section \<open>Python string primitives used by the benchmark scripts\<close>

text \<open>
  Strings are character lists, and a character is one of the 256 code points up to
  \<open>U+00FF\<close>: the model covers the texts written in these characters, which include
  the ASCII text that the solver prints and the accented letters of the model
  descriptions. On such texts the primitives below are the Python built-ins:
  \<open>str.lower\<close> maps \<open>A\<close>..\<open>Z\<close> and the capital letters \<open>U+00C0\<close>..\<open>U+00DE\<close>
  (without the multiplication sign \<open>U+00D7\<close>) to the letter 32 places further, the white
  space of \<open>str.isspace\<close> is the space, \<open>U+0009\<close>..\<open>U+000D\<close>, \<open>U+001C\<close>..\<open>U+001F\<close>,
  \<open>U+0085\<close> and \<open>U+00A0\<close>, and the decimal digits are \<open>0\<close>..\<open>9\<close>.
\<close>

definition upper_chars :: string where
  "upper_chars =
     ''ABCDEFGHIJKLMNOPQRSTUVWXYZ'' @
     [CHR 0xC0, CHR 0xC1, CHR 0xC2, CHR 0xC3, CHR 0xC4, CHR 0xC5, CHR 0xC6, CHR 0xC7,
      CHR 0xC8, CHR 0xC9, CHR 0xCA, CHR 0xCB, CHR 0xCC, CHR 0xCD, CHR 0xCE, CHR 0xCF,
      CHR 0xD0, CHR 0xD1, CHR 0xD2, CHR 0xD3, CHR 0xD4, CHR 0xD5, CHR 0xD6,
      CHR 0xD8, CHR 0xD9, CHR 0xDA, CHR 0xDB, CHR 0xDC, CHR 0xDD, CHR 0xDE]"

definition lower_chars :: string where
  "lower_chars =
     ''abcdefghijklmnopqrstuvwxyz'' @
     [CHR 0xE0, CHR 0xE1, CHR 0xE2, CHR 0xE3, CHR 0xE4, CHR 0xE5, CHR 0xE6, CHR 0xE7,
      CHR 0xE8, CHR 0xE9, CHR 0xEA, CHR 0xEB, CHR 0xEC, CHR 0xED, CHR 0xEE, CHR 0xEF,
      CHR 0xF0, CHR 0xF1, CHR 0xF2, CHR 0xF3, CHR 0xF4, CHR 0xF5, CHR 0xF6,
      CHR 0xF8, CHR 0xF9, CHR 0xFA, CHR 0xFB, CHR 0xFC, CHR 0xFD, CHR 0xFE]"

definition lower_char :: "char \<Rightarrow> char" where
  "lower_char c = (case map_of (zip upper_chars lower_chars) c of Some d \<Rightarrow> d | None \<Rightarrow> c)"

definition lower :: "string \<Rightarrow> string" where
  "lower s = map lower_char s"

text \<open>\<open>sub in s\<close>: the substring test.\<close>

fun contains :: "string \<Rightarrow> string \<Rightarrow> bool" where
  "contains sub [] = (sub = [])"
| "contains sub (c # cs) = (prefix sub (c # cs) \<or> contains sub cs)"

text \<open>
  \<open>s.count(sub)\<close>: the number of non-overlapping occurrences, scanning from the left;
  for the empty pattern Python answers \<open>len(s) + 1\<close>.
\<close>

function count_sub :: "string \<Rightarrow> string \<Rightarrow> nat" where
  "count_sub sub s =
     (if sub = [] then length s + 1
      else if s = [] then 0
      else if prefix sub s then 1 + count_sub sub (drop (length sub) s)
      else count_sub sub (tl s))"
  by pat_completeness auto
termination
  by (relation "measure (\<lambda>(sub, s). length s)") auto

declare count_sub.simps [simp del]

text \<open>
  \<open>s.replace(old, new)\<close>: every non-overlapping occurrence of \<open>old\<close>, from the left,
  becomes \<open>new\<close>; the replaced text is not scanned again. For the empty pattern Python
  puts \<open>new\<close> before every character and at the end.
\<close>

function replace :: "string \<Rightarrow> string \<Rightarrow> string \<Rightarrow> string" where
  "replace old new s =
     (if old = [] then new @ concat (map (\<lambda>c. c # new) s)
      else if s = [] then []
      else if prefix old s then new @ replace old new (drop (length old) s)
      else hd s # replace old new (tl s))"
  by pat_completeness auto
termination
  by (relation "measure (\<lambda>(old, new, s). length s)") auto

declare replace.simps [simp del]

text \<open>\<open>s.split(sep)\<close> for a one-character separator: never empty, \<open>''''.split(sep) = ['''']\<close>.\<close>

fun split :: "char \<Rightarrow> string \<Rightarrow> string list" where
  "split sep [] = [[]]"
| "split sep (c # cs) =
     (if c = sep then [] # split sep cs
      else (case split sep cs of w # ws \<Rightarrow> (c # w) # ws | [] \<Rightarrow> [[c]]))"

definition is_space :: "char \<Rightarrow> bool" where
  "is_space c = (c \<in> set [CHR '' '', CHR 0x09, CHR 0x0A, CHR 0x0B, CHR 0x0C, CHR 0x0D,
                           CHR 0x1C, CHR 0x1D, CHR 0x1E, CHR 0x1F, CHR 0x85, CHR 0xA0])"

definition strip :: "string \<Rightarrow> string" where
  "strip s = rev (dropWhile is_space (rev (dropWhile is_space s)))"

section \<open>Reading numbers: \<open>int\<close> and \<open>float\<close> of a string\<close>

text \<open>
  Around a literal, \<open>int\<close> and \<open>float\<close> skip the space, \<open>U+0009\<close>..\<open>U+000D\<close>,
  \<open>U+0085\<close> and \<open>U+00A0\<close>. Unlike \<open>str.strip\<close> they do not skip the separators
  \<open>U+001C\<close>..\<open>U+001F\<close>: \<open>int('\x1c5')\<close> raises \<open>ValueError\<close>.
\<close>

definition is_numeric_space :: "char \<Rightarrow> bool" where
  "is_numeric_space c =
     (c \<in> set [CHR '' '', CHR 0x09, CHR 0x0A, CHR 0x0B, CHR 0x0C, CHR 0x0D, CHR 0x85, CHR 0xA0])"

definition numeric_strip :: "string \<Rightarrow> string" where
  "numeric_strip s = rev (dropWhile is_numeric_space (rev (dropWhile is_numeric_space s)))"

definition is_digit :: "char \<Rightarrow> bool" where
  "is_digit c = (c \<in> set ''0123456789'')"

definition digit_val :: "char \<Rightarrow> nat" where
  "digit_val c = of_char c - 48"

definition nat_of_digits :: "string \<Rightarrow> nat" where
  "nat_of_digits ds = foldl (\<lambda>a c. 10 * a + digit_val c) 0 ds"

text \<open>
  The \<open>digitpart\<close> of Python's numeric literals in strings: digits, with single
  underscores allowed between two digits. The result is the digits without the underscores,
  \<open>None\<close> when the text is not a \<open>digitpart\<close>.
\<close>

fun digitpart :: "string \<Rightarrow> string option" where
  "digitpart [] = None"
| "digitpart [c] = (if is_digit c then Some [c] else None)"
| "digitpart (c # d # cs) =
     (if \<not> is_digit c then None
      else if d = CHR ''_'' then map_option (Cons c) (digitpart cs)
      else map_option (Cons c) (digitpart (d # cs)))"

text \<open>An optional sign and a \<open>digitpart\<close>: the body of an integer literal and of an exponent.\<close>

definition signed_digitpart :: "string \<Rightarrow> int option" where
  "signed_digitpart s =
     (case s of
        [] \<Rightarrow> None
      | c # cs \<Rightarrow>
          if c = CHR ''-'' then map_option (\<lambda>ds. - int (nat_of_digits ds)) (digitpart cs)
          else if c = CHR ''+'' then map_option (\<lambda>ds. int (nat_of_digits ds)) (digitpart cs)
          else map_option (\<lambda>ds. int (nat_of_digits ds)) (digitpart (c # cs)))"

text \<open>
  \<open>int(s)\<close> in base 10: the surrounding white space is skipped, then come an optional sign
  and a \<open>digitpart\<close>. Since Python 3.11 a literal of more than 4300 digits
  (\<open>sys.int_info.default_max_str_digits\<close>; the sign and the underscores do not count) is
  refused. \<open>None\<close> stands for \<open>ValueError\<close>.
\<close>

definition max_str_digits :: nat where
  "max_str_digits = 4300"

definition py_int :: "string \<Rightarrow> int option" where
  "py_int s =
     (if max_str_digits < length (filter is_digit (numeric_strip s)) then None
      else signed_digitpart (numeric_strip s))"

text \<open>
  A Python float is a binary64 number: a real number of the format, one of the two
  infinities, or \<open>nan\<close>. The two zeros are not told apart (they compare equal).
\<close>

datatype pyfloat = Finite real | PInf | MInf | NaN

text \<open>
  Rounding a real number to binary64, to the nearest value of the format and to the even
  neighbour halfway between two. The numbers of the format with magnitude in
  \<open>[2^e, 2^(e+1))\<close>, for \<open>e\<close> from \<open>-1022\<close> to \<open>1023\<close>, are the multiples of
  \<open>2^(e-52)\<close>; below \<open>2^(-1022)\<close> they are the multiples of \<open>2^(-1074)\<close>; a result of
  magnitude \<open>2^1024\<close> or more is an infinity.
\<close>

text \<open>\<open>n.bit_length()\<close>: the number of binary digits of \<open>n\<close>.\<close>

fun bit_length :: "nat \<Rightarrow> nat" where
  "bit_length n = (if n = 0 then 0 else Suc (bit_length (n div 2)))"

declare bit_length.simps [simp del]

text \<open>For \<open>x > 0\<close>, the exponent \<open>e\<close> with \<open>2^e \<le> x < 2^(e+1)\<close>.\<close>

definition ilog2 :: "real \<Rightarrow> int" where
  "ilog2 x =
     (if 1 \<le> x then int (bit_length (nat \<lfloor>x\<rfloor>)) - 1
      else - int (bit_length (nat \<lceil>1 / x\<rceil> - 1)))"

definition round_half_even :: "real \<Rightarrow> int" where
  "round_half_even x =
     (if x - of_int \<lfloor>x\<rfloor> < 1 / 2 then \<lfloor>x\<rfloor>
      else if 1 / 2 < x - of_int \<lfloor>x\<rfloor> then \<lfloor>x\<rfloor> + 1
      else if even \<lfloor>x\<rfloor> then \<lfloor>x\<rfloor>
      else \<lfloor>x\<rfloor> + 1)"

definition binary64 :: "real \<Rightarrow> pyfloat" where
  "binary64 x =
     (if 2 ^ 1024 \<le> \<bar>x\<bar> then (if 0 < x then PInf else MInf)
      else
        (let e = (if \<bar>x\<bar> < 2 powi (- 1022) then - 1022 else ilog2 \<bar>x\<bar>);
             y = of_int (round_half_even (x / 2 powi (e - 52))) * 2 powi (e - 52)
         in if 2 ^ 1024 \<le> y then PInf
            else if y \<le> - (2 ^ 1024) then MInf
            else Finite y))"

text \<open>
  \<open>float(s)\<close>: the surrounding white space is skipped, then come an optional sign and
  one of \<open>inf\<close>, \<open>infinity\<close>, \<open>nan\<close> in any case, or a decimal literal
  \<open>([digitpart] . digitpart | digitpart [.]) [(e|E) [sign] digitpart]\<close>, which is read as
  the binary64 number nearest to the number it denotes. \<open>None\<close> stands for \<open>ValueError\<close>.
\<close>

definition opt_digitpart :: "string \<Rightarrow> string option" where
  "opt_digitpart s = (if s = [] then Some [] else digitpart s)"

definition mantissa :: "string \<Rightarrow> real option" where
  "mantissa s =
     (case split CHR ''.'' s of
        [i] \<Rightarrow> map_option (\<lambda>ds. real (nat_of_digits ds)) (digitpart i)
      | [i, f] \<Rightarrow>
          (if i = [] \<and> f = [] then None
           else case (opt_digitpart i, opt_digitpart f) of
                  (Some ds, Some fs) \<Rightarrow>
                    Some (real (nat_of_digits ds) + real (nat_of_digits fs) / 10 ^ length fs)
                | _ \<Rightarrow> None)
      | _ \<Rightarrow> None)"

text \<open>The number that a decimal literal without sign denotes.\<close>

definition floatnumber :: "string \<Rightarrow> real option" where
  "floatnumber s =
     (case split CHR ''e'' (map (\<lambda>c. if c = CHR ''E'' then CHR ''e'' else c) s) of
        [m] \<Rightarrow> mantissa m
      | [m, e] \<Rightarrow>
          (case (mantissa m, signed_digitpart e) of
             (Some v, Some k) \<Rightarrow> Some (v * 10 powi k)
           | _ \<Rightarrow> None)
      | _ \<Rightarrow> None)"

definition absfloatvalue :: "string \<Rightarrow> pyfloat option" where
  "absfloatvalue s =
     (if lower s = ''inf'' \<or> lower s = ''infinity'' then Some PInf
      else if lower s = ''nan'' then Some NaN
      else map_option binary64 (floatnumber s))"

definition float_neg :: "pyfloat \<Rightarrow> pyfloat" where
  "float_neg a = (case a of Finite x \<Rightarrow> Finite (- x) | PInf \<Rightarrow> MInf | MInf \<Rightarrow> PInf | NaN \<Rightarrow> NaN)"

definition py_float :: "string \<Rightarrow> pyfloat option" where
  "py_float s =
     (case numeric_strip s of
        [] \<Rightarrow> None
      | c # cs \<Rightarrow>
          if c = CHR ''-'' then map_option float_neg (absfloatvalue cs)
          else if c = CHR ''+'' then absfloatvalue cs
          else absfloatvalue (c # cs))"

text \<open>
  The comparison \<open>a < b\<close> of two floats: every comparison with \<open>nan\<close> is false.
\<close>

definition float_lt :: "pyfloat \<Rightarrow> pyfloat \<Rightarrow> bool" where
  "float_lt a b =
     (case (a, b) of
        (Finite x, Finite y) \<Rightarrow> x < y
      | (Finite x, PInf) \<Rightarrow> True
      | (MInf, Finite y) \<Rightarrow> True
      | (MInf, PInf) \<Rightarrow> True
      | _ \<Rightarrow> False)"

section \<open>The runner: \<open>run_minizinc\<close> of benchmark.py\<close>

text \<open>
  What \<open>subprocess.run\<close> does is an input of the model: the process completes and
  hands back its return code and the two captured texts, or the wait is cut at the timeout
  (\<open>subprocess.TimeoutExpired\<close>), or anything else is raised (the launch fails, the
  output does not decode). The second input is the reading of the runner's own clock,
  \<open>time.time() - start_time\<close>, taken after a completed wait: a number of seconds. The
  \<open>time\<close> field of the outcome holds that number, the timeout, or the float read from a
  \<open>solveTime\<close> line, which may be an infinity or \<open>nan\<close>.
\<close>

datatype proc_outcome =
    Completed (returncode: int) (stdout: string) (stderr: string)
  | TimeoutExpired
  | OtherException

datatype status = UNKNOWN | SAT | UNSAT | TIMEOUT | ERROR

record stats =
  status :: status
  time :: "pyfloat option"
  nodes :: "int option"
  failures :: "int option"
  propagations :: "int option"
  solutions :: nat

text \<open>\<open>line.split('=')[1]\<close>: the second field, \<open>None\<close> for the \<open>IndexError\<close>.\<close>

definition field1 :: "string \<Rightarrow> string option" where
  "field1 line = (case split CHR ''='' line of a # b # rest \<Rightarrow> Some b | _ \<Rightarrow> None)"

text \<open>
  The bodies of the four \<open>try\<close> blocks: \<open>int(line.split('=')[1].strip())\<close> and
  \<open>float(line.split('=')[1].strip().replace('ms', ''))\<close>. \<open>None\<close> is any exception,
  which the bare \<open>except: pass\<close> swallows.
\<close>

definition int_token :: "string \<Rightarrow> int option" where
  "int_token line = (case field1 line of None \<Rightarrow> None | Some x \<Rightarrow> py_int (strip x))"

definition float_token :: "string \<Rightarrow> pyfloat option" where
  "float_token line =
     (case field1 line of None \<Rightarrow> None | Some x \<Rightarrow> py_float (replace ''ms'' [] (strip x)))"

text \<open>One turn of the loop over the lines (the \<open>if\<close>/\<open>elif\<close> chain, in the source's order).\<close>

definition scan_line :: "stats \<Rightarrow> string \<Rightarrow> stats" where
  "scan_line st line =
     (if contains ''nodes'' (lower line) then
        (case int_token line of Some v \<Rightarrow> st\<lparr>nodes := Some v\<rparr> | None \<Rightarrow> st)
      else if contains ''failures'' (lower line) \<or> contains ''fails'' (lower line) then
        (case int_token line of Some v \<Rightarrow> st\<lparr>failures := Some v\<rparr> | None \<Rightarrow> st)
      else if contains ''propagations'' (lower line) \<or> contains ''propagates'' (lower line) then
        (case int_token line of Some v \<Rightarrow> st\<lparr>propagations := Some v\<rparr> | None \<Rightarrow> st)
      else if contains ''solveTime'' line then
        (case float_token line of Some v \<Rightarrow> st\<lparr>time := Some v\<rparr> | None \<Rightarrow> st)
      else st)"

definition scan_lines :: "stats \<Rightarrow> string list \<Rightarrow> stats" where
  "scan_lines st ls = foldl scan_line st ls"

definition classify :: "real \<Rightarrow> real \<Rightarrow> int \<Rightarrow> string \<Rightarrow> string \<Rightarrow> stats \<Rightarrow> stats" where
  "classify timeout elapsed_time rc out err st =
     (if rc = 0 \<and> contains ''Q = '' out then
        st\<lparr>status := SAT, solutions := count_sub ''Q = '' out\<rparr>
      else if rc = 0 then st\<lparr>status := UNSAT\<rparr>
      else if contains ''TIMEOUT'' err \<or> elapsed_time \<ge> timeout - 1 then st\<lparr>status := TIMEOUT\<rparr>
      else st\<lparr>status := ERROR\<rparr>)"

definition run_minizinc :: "real \<Rightarrow> real \<Rightarrow> proc_outcome \<Rightarrow> stats" where
  "run_minizinc timeout elapsed_time result =
     (case result of
        Completed rc out err \<Rightarrow>
          classify timeout elapsed_time rc out err
            (scan_lines
               \<lparr>status = UNKNOWN, time = Some (Finite elapsed_time), nodes = None, failures = None,
                propagations = None, solutions = 0\<rparr>
               (split CHR 0x0A out))
      | TimeoutExpired \<Rightarrow>
          \<lparr>status = TIMEOUT, time = Some (Finite timeout), nodes = None, failures = None,
           propagations = None, solutions = 0\<rparr>
      | OtherException \<Rightarrow>
          \<lparr>status = ERROR, time = None, nodes = None, failures = None,
           propagations = None, solutions = 0\<rparr>)"

text \<open>
  The value one line gives to the \<open>time\<close> field, if it gives one: the line falls through
  the three counter keys, contains \<open>solveTime\<close>, and its token is read as a float.
\<close>

definition solve_time_of :: "string \<Rightarrow> pyfloat option" where
  "solve_time_of line =
     (if contains ''nodes'' (lower line) then None
      else if contains ''failures'' (lower line) \<or> contains ''fails'' (lower line) then None
      else if contains ''propagations'' (lower line) \<or> contains ''propagates'' (lower line) then None
      else if contains ''solveTime'' line then float_token line
      else None)"

text \<open>
  A line whose \<open>try\<close> block raises: it matches one of the keys, in the order of the chain,
  and the token of that branch cannot be read (no second field, or no number in it).
\<close>

definition malformed :: "string \<Rightarrow> bool" where
  "malformed line =
     (if contains ''nodes'' (lower line) then int_token line = None
      else if contains ''failures'' (lower line) \<or> contains ''fails'' (lower line)
        then int_token line = None
      else if contains ''propagations'' (lower line) \<or> contains ''propagates'' (lower line)
        then int_token line = None
      else contains ''solveTime'' line \<and> float_token line = None)"

section \<open>The orchestrator: \<open>main\<close> of benchmark.py\<close>

text \<open>
  The module constants. The timeout constant is \<open>TIMEOUT\<close> in the source; that name is
  the status constructor here.
\<close>

definition TIMEOUT_seconds :: real where
  "TIMEOUT_seconds = 300"

definition N_VALUES :: "int list" where
  "N_VALUES = [8, 10, 12, 15, 20, 25, 30, 40, 50]"

definition MODELS :: "(string \<times> string) list" where
  "MODELS =
     [(''01_naive.mzn'', ''Na'' @ [CHR 0xEF] @ ''f (contraintes binaires)''),
      (''02_global.mzn'', ''Contraintes globales''),
      (''03_ff_min.mzn'', ''First-Fail + Min''),
      (''04_ff_max.mzn'', ''First-Fail + Max''),
      (''05_ff_split.mzn'', ''First-Fail + Split''),
      (''06_input_order.mzn'', ''Input Order''),
      (''07_smallest.mzn'', ''Smallest''),
      (''08_dom_w_deg.mzn'', ''Dom/Wdeg''),
      (''09_symmetry_basic.mzn'', ''Sym'' @ [CHR 0xE9] @ ''trie basique''),
      (''10_symmetry_advanced.mzn'', ''Sym'' @ [CHR 0xE9] @ ''trie avanc'' @ [CHR 0xE9] @ ''e''),
      (''11_redundant.mzn'', ''Contraintes redondantes''),
      (''12_bounds.mzn'', ''Propagation bounds''),
      (''13_random.mzn'', ''Random''),
      (''14_combined_optimal.mzn'', ''Combin'' @ [CHR 0xE9] @ '' optimal''),
      (''15_max_regret.mzn'', ''Max Regret'')]"

text \<open>
  What the batch finds outside the program: which model files and which data files
  exist, and, for a run that is launched, the clock reading and the outcome of the
  process. The file system is taken as fixed for the duration of the batch.
\<close>

record env =
  model_exists :: "string \<Rightarrow> bool"
  data_exists :: "int \<Rightarrow> bool"
  process :: "string \<Rightarrow> int \<Rightarrow> real \<times> proc_outcome"

text \<open>
  The console lines and the rows handed to \<open>writer.writerow\<close>. A row keeps the values
  the source formats into its nine cells (model file, description, size and the six
  fields of the outcome); the text of the cells is not modelled.
\<close>

datatype message =
    ModelNotFound string
  | DataNotFound int
  | Progress nat string int status

record written_row =
  w_model :: string
  w_description :: string
  w_n :: int
  w_stats :: stats

record batch =
  current :: nat
  console :: "message list"
  csv :: "written_row list"

text \<open>The body of the inner loop, \<open>for n in N_VALUES\<close>.\<close>

definition run_size :: "real \<Rightarrow> env \<Rightarrow> string \<times> string \<Rightarrow> batch \<Rightarrow> int \<Rightarrow> batch" where
  "run_size timeout e m b n =
     (if \<not> data_exists e n then
        b\<lparr>current := current b + 1, console := console b @ [DataNotFound n]\<rparr>
      else
        (let st = run_minizinc timeout (fst (process e (fst m) n)) (snd (process e (fst m) n))
         in b\<lparr>current := current b + 1,
              console := console b @ [Progress (current b + 1) (fst m) n (status st)],
              csv := csv b @ [\<lparr>w_model = fst m, w_description = snd m, w_n = n, w_stats = st\<rparr>]\<rparr>))"

text \<open>The body of the outer loop, \<open>for model_file, description in MODELS\<close>.\<close>

definition run_model :: "real \<Rightarrow> int list \<Rightarrow> env \<Rightarrow> batch \<Rightarrow> string \<times> string \<Rightarrow> batch" where
  "run_model timeout n_values e b m =
     (if \<not> model_exists e (fst m) then b\<lparr>console := console b @ [ModelNotFound (fst m)]\<rparr>
      else foldl (run_size timeout e m) b n_values)"

definition run_batch :: "(string \<times> string) list \<Rightarrow> int list \<Rightarrow> real \<Rightarrow> env \<Rightarrow> batch" where
  "run_batch models n_values timeout e =
     foldl (run_model timeout n_values e) \<lparr>current = 0, console = [], csv = []\<rparr> models"

definition main :: "env \<Rightarrow> batch" where
  "main e = run_batch MODELS N_VALUES TIMEOUT_seconds e"

text \<open>A run request that the batch does not launch: its model file or its data file is absent.\<close>

definition skipped :: "env \<Rightarrow> (string \<times> string) \<times> int \<Rightarrow> bool" where
  "skipped e x = (\<not> model_exists e (fst (fst x)) \<or> \<not> data_exists e (snd x))"

definition run_spec :: "written_row \<Rightarrow> (string \<times> string) \<times> int" where
  "run_spec r = ((w_model r, w_description r), w_n r)"

section \<open>The reducers: \<open>generate_summary\<close> of benchmark.py and the tables of visualize.py\<close>

text \<open>
  A row as \<open>csv.DictReader\<close> hands it over: every cell is a string. The six columns that
  the reducers read are kept; the file is taken to have these columns and a cell for each
  of them in every row.
\<close>

record row =
  col_Model :: string
  col_Description :: string
  col_N :: string
  col_Status :: string
  col_Time :: string
  col_Nodes :: string

text \<open>
  The exceptions of the reducers: \<open>ValueError\<close> from \<open>int\<close>, \<open>float\<close> and \<open>min\<close>, and
  whatever \<open>np.mean\<close> raises.
\<close>

datatype error = ValueError | NumpyError

text \<open>\<open>str(n)\<close> for an integer: its decimal digits, with a minus sign when negative.\<close>

definition digit_char :: "nat \<Rightarrow> char" where
  "digit_char d = ''0123456789'' ! d"

fun str_nat :: "nat \<Rightarrow> string" where
  "str_nat n = (if n < 10 then [digit_char n] else str_nat (n div 10) @ [digit_char (n mod 10)])"

declare str_nat.simps [simp del]

definition str_int :: "int \<Rightarrow> string" where
  "str_int n = (if n < 0 then CHR ''-'' # str_nat (nat (- n)) else str_nat (nat n))"

text \<open>
  \<open>min(rows, key=lambda x: float(x['Time(s)']))\<close>. The keys are computed first, and one
  that cannot be read raises \<open>ValueError\<close>; \<open>min\<close> of an empty list raises it too. Then
  \<open>min\<close> walks the list from the left and replaces its candidate only by an item whose key
  is smaller, as \<open>float_lt\<close> has it.
\<close>

fun float_keys :: "row list \<Rightarrow> (pyfloat \<times> row) list option" where
  "float_keys [] = Some []"
| "float_keys (r # rs) =
     (case py_float (col_Time r) of
        None \<Rightarrow> None
      | Some k \<Rightarrow> map_option (Cons (k, r)) (float_keys rs))"

fun min_from :: "pyfloat \<times> 'a \<Rightarrow> (pyfloat \<times> 'a) list \<Rightarrow> pyfloat \<times> 'a" where
  "min_from best [] = best"
| "min_from best (x # xs) = min_from (if float_lt (fst x) (fst best) then x else best) xs"

definition min_by_time :: "row list \<Rightarrow> error + row" where
  "min_by_time rs =
     (case float_keys rs of
        None \<Rightarrow> Inl ValueError
      | Some [] \<Rightarrow> Inl ValueError
      | Some (x # xs) \<Rightarrow> Inr (snd (min_from x xs)))"

text \<open>
  The entry for one size, shared by both scripts: the best row of the selected rows, or the
  line that says no solution was found (\<open>Aucune solution\<close>, \<open>Aucun\<close>).
\<close>

datatype best = Best row | NoSolution

definition best_of :: "row list \<Rightarrow> error + best" where
  "best_of rs =
     (if rs \<noteq> [] then (case min_by_time rs of Inl e \<Rightarrow> Inl e | Inr b \<Rightarrow> Inr (Best b))
      else Inr NoSolution)"

text \<open>A \<open>for\<close> loop that collects one result per item and stops at the first exception.\<close>

fun for_each :: "('a \<Rightarrow> error + 'b) \<Rightarrow> 'a list \<Rightarrow> error + 'b list" where
  "for_each f [] = Inr []"
| "for_each f (x # xs) =
     (case f x of
        Inl e \<Rightarrow> Inl e
      | Inr y \<Rightarrow> (case for_each f xs of Inl e \<Rightarrow> Inl e | Inr ys \<Rightarrow> Inr (y # ys)))"

text \<open>benchmark.py, \<open>generate_summary\<close>, first loop: \<open>for n in N_VALUES\<close>.\<close>

definition n_rows :: "row list \<Rightarrow> int \<Rightarrow> row list" where
  "n_rows rows n =
     filter (\<lambda>r. col_N r = str_int n \<and> col_Status r = ''SAT'' \<and> col_Time r \<noteq> []) rows"

definition best_by_size :: "row list \<Rightarrow> error + (int \<times> best) list" where
  "best_by_size rows =
     for_each (\<lambda>n. case best_of (n_rows rows n) of Inl e \<Rightarrow> Inl e | Inr b \<Rightarrow> Inr (n, b)) N_VALUES"

text \<open>
  visualize.py, \<open>plot_best_per_size\<close>: the sizes are
  \<open>sorted(set(int(r['N']) for r in results))\<close>.
\<close>

fun int_cells :: "row list \<Rightarrow> int list option" where
  "int_cells [] = Some []"
| "int_cells (r # rs) =
     (case py_int (col_N r) of
        None \<Rightarrow> None
      | Some n \<Rightarrow> map_option (Cons n) (int_cells rs))"

definition n_values_of :: "row list \<Rightarrow> error + int list" where
  "n_values_of results =
     (case int_cells results of None \<Rightarrow> Inl ValueError | Some ns \<Rightarrow> Inr (sort (remdups ns)))"

definition n_results :: "row list \<Rightarrow> int \<Rightarrow> row list" where
  "n_results results n =
     filter (\<lambda>r. py_int (col_N r) = Some n \<and> col_Status r = ''SAT'' \<and> col_Time r \<noteq> []) results"

definition plot_best_per_size :: "row list \<Rightarrow> error + (int \<times> best) list" where
  "plot_best_per_size results =
     (case n_values_of results of
        Inl e \<Rightarrow> Inl e
      | Inr ns \<Rightarrow>
          for_each (\<lambda>n. case best_of (n_results results n) of Inl e \<Rightarrow> Inl e | Inr b \<Rightarrow> Inr (n, b)) ns)"

text \<open>
  The stable minimum, for the statement of the claims. Position \<open>i\<close> holds a smallest key
  of the list (no key is below it) and every key before it is strictly larger. With
  \<open>nan\<close> among the keys, which compares false with everything, the walk of \<open>min\<close> gives
  the following: a \<open>nan\<close> in first place is kept to the end, and a \<open>nan\<close> further on is
  never taken. Without \<open>nan\<close> the two last clauses say nothing more than the first two.
\<close>

definition float_time :: "row \<Rightarrow> pyfloat" where
  "float_time r = the (py_float (col_Time r))"

definition first_min :: "('a \<Rightarrow> pyfloat) \<Rightarrow> 'a list \<Rightarrow> nat \<Rightarrow> bool" where
  "first_min key xs i =
     (i < length xs \<and>
      list_all (\<lambda>x. \<not> float_lt (key x) (key (xs ! i))) xs \<and>
      list_all (\<lambda>x. float_lt (key (xs ! i)) (key x) \<or> key x = NaN) (take i xs) \<and>
      (key (xs ! 0) = NaN \<longrightarrow> i = 0))"

text \<open>
  What an entry must be for the rows \<open>rs\<close> selected for one size: the no-solution line when
  there are none, and otherwise the row at the position of the stable minimum.
\<close>

definition stable_best :: "row list \<Rightarrow> best \<Rightarrow> bool" where
  "stable_best rs b =
     (if rs = [] then b = NoSolution
      else list_ex (\<lambda>i. b = Best (rs ! i) \<and> first_min float_time rs i) [0..<length rs])"

text \<open>The rows whose time cell is read by \<open>float\<close>.\<close>

definition timed_sat :: "row \<Rightarrow> bool" where
  "timed_sat r = (col_Status r = ''SAT'' \<and> col_Time r \<noteq> [])"

text \<open>A loop that threads a state through its items and stops at the first exception.\<close>

fun fold_err :: "('s \<Rightarrow> 'a \<Rightarrow> error + 's) \<Rightarrow> 's \<Rightarrow> 'a list \<Rightarrow> error + 's" where
  "fold_err f s [] = Inr s"
| "fold_err f s (x # xs) = (case f s x of Inl e \<Rightarrow> Inl e | Inr s' \<Rightarrow> fold_err f s' xs)"

text \<open>
  Sorting by a float key. \<open>sorted\<close> is stable and compares the keys with \<open><\<close>; on keys
  without \<open>nan\<close> that is the stable sort for the order in which \<open>-inf\<close> is below every
  number and \<open>inf\<close> above, and \<open>order_key\<close> embeds that order into pairs ordered
  lexicographically. With a \<open>nan\<close> among the keys the order that \<open>sorted\<close> produces
  depends on the comparisons it happens to make; here \<open>nan\<close> is put last, and what is
  stated below about the order of a table assumes that no key is \<open>nan\<close>.
\<close>

definition order_key :: "pyfloat \<Rightarrow> nat \<times> real" where
  "order_key a = (case a of MInf \<Rightarrow> (0, 0) | Finite x \<Rightarrow> (1, x) | PInf \<Rightarrow> (2, 0) | NaN \<Rightarrow> (3, 0))"

text \<open>
  The division of a float by the length of a list (a positive integer far below \<open>2^53\<close>,
  so that its conversion to a float is exact): the exact quotient, rounded.
\<close>

definition float_div_nat :: "pyfloat \<Rightarrow> nat \<Rightarrow> pyfloat" where
  "float_div_nat a n = (case a of Finite x \<Rightarrow> binary64 (x / real n) | _ \<Rightarrow> a)"

text \<open>
  benchmark.py, \<open>generate_summary\<close>, second loop: \<open>for model_file, description in MODELS\<close>.
  The dictionary \<open>model_stats\<close> is an association list in insertion order (assigning to a
  key that is present keeps its place); its values are \<open>(avg_time, solved, total)\<close>.
  How \<open>sum\<close> adds floats depends on the interpreter (from the left, each sum rounded, up
  to Python 3.11; with a compensation of the rounding errors since 3.12): the summation
  \<open>py_sum\<close> is an input of the model, and what is proved holds for every summation.
\<close>

definition model_rows :: "row list \<Rightarrow> string \<Rightarrow> row list" where
  "model_rows rows model_file =
     filter (\<lambda>r. col_Model r = model_file \<and> col_Status r = ''SAT'' \<and> col_Time r \<noteq> []) rows"

definition model_stats_step ::
  "(pyfloat list \<Rightarrow> pyfloat) \<Rightarrow> row list \<Rightarrow> (string \<times> pyfloat \<times> nat \<times> nat) list \<Rightarrow>
   string \<times> string \<Rightarrow> error + (string \<times> pyfloat \<times> nat \<times> nat) list" where
  "model_stats_step py_sum rows model_stats m =
     (if model_rows rows (fst m) \<noteq> [] then
        (case float_keys (model_rows rows (fst m)) of
           None \<Rightarrow> Inl ValueError
         | Some ks \<Rightarrow>
             Inr (AList.update (snd m)
                    (float_div_nat (py_sum (map fst ks)) (length (model_rows rows (fst m))),
                     length (model_rows rows (fst m)),
                     length (filter (\<lambda>r. col_Model r = fst m) rows))
                    model_stats))
      else Inr model_stats)"

definition model_performance ::
  "(pyfloat list \<Rightarrow> pyfloat) \<Rightarrow> row list \<Rightarrow> error + (string \<times> pyfloat \<times> nat \<times> nat) list" where
  "model_performance py_sum rows =
     (case fold_err (model_stats_step py_sum rows) [] MODELS of
        Inl e \<Rightarrow> Inl e
      | Inr model_stats \<Rightarrow> Inr (sort_key (\<lambda>x. order_key (fst (snd x))) model_stats))"

text \<open>The two parts of \<open>generate_summary\<close>, one after the other.\<close>

definition generate_summary ::
  "(pyfloat list \<Rightarrow> pyfloat) \<Rightarrow> row list \<Rightarrow>
   error + ((int \<times> best) list \<times> (string \<times> pyfloat \<times> nat \<times> nat) list)" where
  "generate_summary py_sum rows =
     (case best_by_size rows of
        Inl e \<Rightarrow> Inl e
      | Inr bests \<Rightarrow>
          (case model_performance py_sum rows of
             Inl e \<Rightarrow> Inl e
           | Inr perf \<Rightarrow> Inr (bests, perf)))"

text \<open>
  visualize.py, \<open>generate_summary_table\<close>, first table. \<open>models_data\<close> is keyed by the
  description. \<open>np.mean\<close> belongs to numpy and not to this program: the mean of a
  non-empty list of floats, which is a float, and the mean of a non-empty list of
  integers, which numpy may refuse to compute, are inputs of the model, and what is proved
  holds for every choice of them.
\<close>

record numpy =
  mean_floats :: "pyfloat list \<Rightarrow> pyfloat"
  mean_ints :: "int list \<Rightarrow> error + pyfloat"

record model_data =
  d_times :: "pyfloat list"
  d_nodes :: "int list"
  d_total :: nat
  d_solved :: nat

definition table_step ::
  "(string \<times> model_data) list \<Rightarrow> row \<Rightarrow> error + (string \<times> model_data) list" where
  "table_step models_data r =
     (let d = (case map_of models_data (col_Description r) of
                 None \<Rightarrow> \<lparr>d_times = [], d_nodes = [], d_total = 0, d_solved = 0\<rparr>
               | Some d \<Rightarrow> d);
          d1 = d\<lparr>d_total := d_total d + 1\<rparr>
      in if col_Status r = ''SAT'' then
           (case (if col_Time r \<noteq> []
                  then map_option (\<lambda>t. d_times d1 @ [t]) (py_float (col_Time r))
                  else Some (d_times d1)) of
              None \<Rightarrow> Inl ValueError
            | Some ts \<Rightarrow>
                (case (if col_Nodes r \<noteq> []
                       then map_option (\<lambda>k. d_nodes d1 @ [k]) (py_int (col_Nodes r))
                       else Some (d_nodes d1)) of
                   None \<Rightarrow> Inl ValueError
                 | Some ks \<Rightarrow>
                     Inr (AList.update (col_Description r)
                            (d1\<lparr>d_solved := d_solved d1 + 1, d_times := ts, d_nodes := ks\<rparr>)
                            models_data)))
         else Inr (AList.update (col_Description r) d1 models_data))"

text \<open>The sort key \<open>np.mean(x[1]['times']) if x[1]['times'] else float('inf')\<close>.\<close>

definition mean_time_key :: "numpy \<Rightarrow> string \<times> model_data \<Rightarrow> pyfloat" where
  "mean_time_key np x = (if d_times (snd x) \<noteq> [] then mean_floats np (d_times (snd x)) else PInf)"

text \<open>
  One line of the table: the model, the two means (\<open>0\<close> for an empty list), the two
  counts and the rate \<open>100 * solved / total\<close>, a division of two integers, which gives the
  float nearest to the quotient.
\<close>

record table_line =
  l_model :: string
  l_avg_time :: pyfloat
  l_avg_nodes :: pyfloat
  l_solved :: nat
  l_total :: nat
  l_rate :: pyfloat

definition line_of :: "numpy \<Rightarrow> string \<times> model_data \<Rightarrow> error + table_line" where
  "line_of np x =
     (case (if d_nodes (snd x) \<noteq> [] then mean_ints np (d_nodes (snd x)) else Inr (Finite 0)) of
        Inl e \<Rightarrow> Inl e
      | Inr avg_nodes \<Rightarrow>
          Inr \<lparr>l_model = fst x,
               l_avg_time =
                 (if d_times (snd x) \<noteq> [] then mean_floats np (d_times (snd x)) else Finite 0),
               l_avg_nodes = avg_nodes,
               l_solved = d_solved (snd x),
               l_total = d_total (snd x),
               l_rate = binary64 (100 * real (d_solved (snd x)) / real (d_total (snd x)))\<rparr>)"

definition model_table :: "numpy \<Rightarrow> row list \<Rightarrow> error + table_line list" where
  "model_table np results =
     (case fold_err table_step [] results of
        Inl e \<Rightarrow> Inl e
      | Inr models_data \<Rightarrow>
          for_each (line_of np) (sort_key (\<lambda>x. order_key (mean_time_key np x)) models_data))"

text \<open>
  visualize.py, \<open>generate_summary_table\<close>, second table: the sizes and the best row of
  each as in \<open>plot_best_per_size\<close>, and for a best row its description, its time and its
  node count, \<open>int(best['Nodes']) if best['Nodes'] else 0\<close>.
\<close>

datatype size_line = BestLine int string pyfloat int | NoSolutionLine int

definition size_line_of :: "int \<Rightarrow> best \<Rightarrow> error + size_line" where
  "size_line_of n b =
     (case b of
        NoSolution \<Rightarrow> Inr (NoSolutionLine n)
      | Best r \<Rightarrow>
          (case (if col_Nodes r \<noteq> [] then py_int (col_Nodes r) else Some 0) of
             None \<Rightarrow> Inl ValueError
           | Some k \<Rightarrow>
               (case py_float (col_Time r) of
                  None \<Rightarrow> Inl ValueError
                | Some t \<Rightarrow> Inr (BestLine n (col_Description r) t k))))"

definition size_table :: "row list \<Rightarrow> error + size_line list" where
  "size_table results =
     (case n_values_of results of
        Inl e \<Rightarrow> Inl e
      | Inr ns \<Rightarrow>
          for_each (\<lambda>n. case best_of (n_results results n) of
                          Inl e \<Rightarrow> Inl e
                        | Inr b \<Rightarrow> size_line_of n b) ns)"

text \<open>The whole function: the first table, then the second; an exception ends it.\<close>

definition generate_summary_table ::
  "numpy \<Rightarrow> row list \<Rightarrow> error + (table_line list \<times> size_line list)" where
  "generate_summary_table np results =
     (case model_table np results of
        Inl e \<Rightarrow> Inl e
      | Inr lines \<Rightarrow>
          (case size_table results of
             Inl e \<Rightarrow> Inl e
           | Inr sizes \<Rightarrow> Inr (lines, sizes)))"

text \<open>
  For the statement of the claim: the rows of a model, and the times and node counts
  that the first table collects for it.
\<close>

definition rows_of :: "row list \<Rightarrow> string \<Rightarrow> row list" where
  "rows_of results model = filter (\<lambda>r. col_Description r = model) results"

definition sat_rows_of :: "row list \<Rightarrow> string \<Rightarrow> row list" where
  "sat_rows_of results model =
     filter (\<lambda>r. col_Description r = model \<and> col_Status r = ''SAT'') results"

definition times_of :: "row list \<Rightarrow> string \<Rightarrow> pyfloat list" where
  "times_of results model =
     map float_time (filter (\<lambda>r. col_Description r = model \<and> timed_sat r) results)"

definition nodes_of :: "row list \<Rightarrow> string \<Rightarrow> int list" where
  "nodes_of results model =
     map (\<lambda>r. the (py_int (col_Nodes r)))
       (filter (\<lambda>r. col_Description r = model \<and> col_Status r = ''SAT'' \<and> col_Nodes r \<noteq> []) results)"

text \<open>
  The cells that the tables of visualize.py read are readable: in a \<open>SAT\<close> row the time and
  the node count, when not empty, and in every row the size.
\<close>

definition cells_read :: "row \<Rightarrow> bool" where
  "cells_read r =
     (py_int (col_N r) \<noteq> None \<and>
      (if col_Status r = ''SAT''
       then (col_Time r = [] \<or> py_float (col_Time r) \<noteq> None) \<and>
            (col_Nodes r = [] \<or> py_int (col_Nodes r) \<noteq> None)
       else True))"

text \<open>
  What \<open>models_data\<close> holds once the rows \<open>seen\<close> have gone through the loop: one entry per
  description met, with the counts of its rows and of its \<open>SAT\<close> rows, and the times and the
  node counts of its \<open>SAT\<close> rows, in the order of the rows.
\<close>

definition table_inv :: "row list \<Rightarrow> (string \<times> model_data) list \<Rightarrow> bool" where
  "table_inv seen models_data =
     (distinct (map fst models_data) \<and>
      set (map fst models_data) = set (map col_Description seen) \<and>
      list_all (\<lambda>x. d_total (snd x) = length (rows_of seen (fst x)) \<and>
                    d_solved (snd x) = length (sat_rows_of seen (fst x)) \<and>
                    d_times (snd x) = times_of seen (fst x) \<and>
                    d_nodes (snd x) = nodes_of seen (fst x)) models_data)"

section \<open>Inputs for the examples\<close>

text \<open>
  One summation and one mean: the additions from the left, each sum rounded, and the
  sum over the length. The sum of two floats is the exact sum, rounded; an infinity added
  to the opposite one is \<open>nan\<close>.
\<close>

definition float_add :: "pyfloat \<Rightarrow> pyfloat \<Rightarrow> pyfloat" where
  "float_add a b =
     (case a of
        Finite x \<Rightarrow> (case b of Finite y \<Rightarrow> binary64 (x + y) | _ \<Rightarrow> b)
      | PInf \<Rightarrow> (case b of MInf \<Rightarrow> NaN | NaN \<Rightarrow> NaN | _ \<Rightarrow> PInf)
      | MInf \<Rightarrow> (case b of PInf \<Rightarrow> NaN | NaN \<Rightarrow> NaN | _ \<Rightarrow> MInf)
      | NaN \<Rightarrow> NaN)"

definition sum_left :: "pyfloat list \<Rightarrow> pyfloat" where
  "sum_left ts = foldl float_add (Finite 0) ts"

definition numpy_left :: numpy where
  "numpy_left =
     \<lparr>mean_floats = (\<lambda>ts. float_div_nat (sum_left ts) (length ts)),
      mean_ints = (\<lambda>ks. Inr (binary64 (real_of_int (sum_list ks) / real (length ks))))\<rparr>"

text \<open>A result file of six rows.\<close>

definition mk_row :: "string \<Rightarrow> string \<Rightarrow> string \<Rightarrow> string \<Rightarrow> string \<Rightarrow> string \<Rightarrow> row" where
  "mk_row m d n s t k =
     \<lparr>col_Model = m, col_Description = d, col_N = n, col_Status = s, col_Time = t, col_Nodes = k\<rparr>"

definition scenario_rows :: "row list" where
  "scenario_rows =
     [mk_row ''02_global.mzn'' ''Contraintes globales'' ''8'' ''SAT'' ''1.00000000'' ''120'',
      mk_row ''03_ff_min.mzn'' ''First-Fail + Min'' ''8'' ''SAT'' ''0.50000000'' ''40'',
      mk_row ''07_smallest.mzn'' ''Smallest'' ''8'' ''SAT'' ''0.80000000'' [],
      mk_row ''13_random.mzn'' ''Random'' ''8'' ''SAT'' ''0.50000000'' ''35'',
      mk_row ''13_random.mzn'' ''Random'' ''10'' ''TIMEOUT'' ''300.00000000'' [],
      mk_row ''15_max_regret.mzn'' ''Max Regret'' ''10'' ''ERROR'' [] []]"

section \<open>Lines of the solver's statistics, for the statement of the claims\<close>

text \<open>
  The branch of the chain that a line takes, and two shapes of well-formed lines: a text
  without \<open>=\<close>, the \<open>=\<close>, and a number between optional white space; the number is an
  integer in decimal digits, or a decimal with a point, optionally followed by \<open>ms\<close>.
\<close>

datatype stat_key = Nodes | Failures | Propagations | SolveTime

definition matched_key :: "string \<Rightarrow> stat_key option" where
  "matched_key line =
     (if contains ''nodes'' (lower line) then Some Nodes
      else if contains ''failures'' (lower line) \<or> contains ''fails'' (lower line)
        then Some Failures
      else if contains ''propagations'' (lower line) \<or> contains ''propagates'' (lower line)
        then Some Propagations
      else if contains ''solveTime'' line then Some SolveTime
      else None)"

definition int_line :: "string \<Rightarrow> string \<Rightarrow> nat \<Rightarrow> string \<Rightarrow> string" where
  "int_line p w1 n w2 = p @ ''='' @ w1 @ str_nat n @ w2"

definition float_line :: "string \<Rightarrow> string \<Rightarrow> nat \<Rightarrow> string \<Rightarrow> string \<Rightarrow> string \<Rightarrow> string" where
  "float_line p w1 a ds u w2 = p @ ''='' @ w1 @ str_nat a @ ''.'' @ ds @ u @ w2"

definition stats0 :: stats where
  "stats0 = \<lparr>status = UNKNOWN, time = Some (Finite 2), nodes = None, failures = None,
             propagations = None, solutions = 0\<rparr>"

section \<open>Facts about the string primitives\<close>

lemma contains_iff_sublist: "contains sub s \<longleftrightarrow> sublist sub s"
  by (induction s) (simp_all add: sublist_Cons_right)

lemma count_sub_pos_iff:
  assumes "sub \<noteq> []"
  shows "0 < count_sub sub s \<longleftrightarrow> contains sub s"
  using assms
proof (induction sub s rule: count_sub.induct)
  case (1 sub s)
  show ?case
  proof (cases s)
    case Nil
    with 1 show ?thesis by (simp add: count_sub.simps)
  next
    case (Cons c cs)
    show ?thesis
    proof (cases "prefix sub s")
      case True
      with 1 Cons show ?thesis by (simp add: count_sub.simps [of sub "c # cs"])
    next
      case False
      with 1 Cons show ?thesis by (simp add: count_sub.simps [of sub "c # cs"])
    qed
  qed
qed

text \<open>
  What \<open>count_sub\<close> counts for the solution marker. The marker cannot overlap itself, so
  the occurrences that \<open>str.count\<close> finds from the left are all the positions at which the
  marker stands.
\<close>

lemma prefix_iff_take: "prefix m t \<longleftrightarrow> take (length m) t = m"
proof
  assume "prefix m t"
  then obtain zs where "t = m @ zs"
    by (auto simp add: prefix_def)
  then show "take (length m) t = m"
    by simp
next
  assume "take (length m) t = m"
  with take_is_prefix [of "length m" t] show "prefix m t"
    by simp
qed

lemma positions_Cons:
  "length (filter (\<lambda>i. prefix m (drop i (c # cs))) [0..<length (c # cs)]) =
     (if prefix m (c # cs) then 1 else 0) +
     length (filter (\<lambda>i. prefix m (drop i cs)) [0..<length cs])"
proof -
  have "[0..<length (c # cs)] = 0 # map Suc [0..<length cs]"
    by (simp add: upt_conv_Cons map_Suc_upt del: upt_Suc)
  then show ?thesis by (simp add: filter_map comp_def del: upt_Suc)
qed

lemma positions_marker:
  assumes "prefix ''Q = '' s"
  shows "length (filter (\<lambda>i. prefix ''Q = '' (drop i s)) [0..<length s]) =
           1 + length (filter (\<lambda>i. prefix ''Q = '' (drop i (drop (length ''Q = '') s)))
                         [0..<length (drop (length ''Q = '') s)])"
proof -
  from assms obtain t where s: "s = CHR ''Q'' # CHR '' '' # CHR ''='' # CHR '' '' # t"
    by (auto simp add: prefix_def)
  show ?thesis
    unfolding s positions_Cons by simp
qed

lemma count_sub_marker:
  "count_sub ''Q = '' s = length (filter (\<lambda>i. prefix ''Q = '' (drop i s)) [0..<length s])"
proof (induction s rule: length_induct)
  case (1 s)
  show ?case
  proof (cases s)
    case Nil
    then show ?thesis by (simp add: count_sub.simps)
  next
    case (Cons c cs)
    show ?thesis
    proof (cases "prefix ''Q = '' s")
      case True
      from Cons have ne: "s \<noteq> []"
        by simp
      have "count_sub ''Q = '' s = 1 + count_sub ''Q = '' (drop (length ''Q = '') s)"
        using True ne by (subst count_sub.simps) simp
      moreover from Cons have "length (drop (length ''Q = '') s) < length s"
        by simp
      with 1 have "count_sub ''Q = '' (drop (length ''Q = '') s) =
          length (filter (\<lambda>i. prefix ''Q = '' (drop i (drop (length ''Q = '') s)))
                    [0..<length (drop (length ''Q = '') s)])"
        by blast
      ultimately show ?thesis
        using positions_marker [OF True] by simp
    next
      case False
      from Cons have ne: "s \<noteq> []" and tl: "tl s = cs"
        by simp_all
      have "count_sub ''Q = '' s = count_sub ''Q = '' (tl s)"
        using False ne by (subst count_sub.simps) simp
      then have "count_sub ''Q = '' s = count_sub ''Q = '' cs"
        unfolding tl .
      moreover from Cons 1 have "count_sub ''Q = '' cs =
          length (filter (\<lambda>i. prefix ''Q = '' (drop i cs)) [0..<length cs])"
        by simp
      ultimately show ?thesis
        using False positions_Cons [of "''Q = ''" c cs] unfolding Cons by simp
    qed
  qed
qed

lemma count_sub_marker_card:
  "count_sub ''Q = '' s = card {i. i < length s \<and> take 4 (drop i s) = ''Q = ''}"
proof -
  have len: "length ''Q = '' = 4"
    by simp
  have p: "prefix ''Q = '' t \<longleftrightarrow> take 4 t = ''Q = ''" for t
    using prefix_iff_take [of "''Q = ''" t] unfolding len .
  have "{i. i < length [0..<length s] \<and> prefix ''Q = '' (drop ([0..<length s] ! i) s)} =
      {i. i < length s \<and> prefix ''Q = '' (drop i s)}"
    by auto
  then have "length (filter (\<lambda>i. prefix ''Q = '' (drop i s)) [0..<length s]) =
      card {i. i < length s \<and> prefix ''Q = '' (drop i s)}"
    unfolding length_filter_conv_card by (simp only:)
  then show ?thesis
    unfolding count_sub_marker p .
qed

section \<open>The scan keeps the classification fields\<close>

lemma scan_line_status [simp]: "status (scan_line st l) = status st"
  by (simp add: scan_line_def split: option.splits)

lemma scan_line_solutions [simp]: "solutions (scan_line st l) = solutions st"
  by (simp add: scan_line_def split: option.splits)

lemma scan_lines_status [simp]: "status (scan_lines st ls) = status st"
  unfolding scan_lines_def by (induction ls arbitrary: st) simp_all

lemma scan_lines_solutions [simp]: "solutions (scan_lines st ls) = solutions st"
  unfolding scan_lines_def by (induction ls arbitrary: st) simp_all

lemma status_never_unknown: "status (run_minizinc timeout elapsed_time result) \<noteq> UNKNOWN"
  by (cases result) (simp_all add: run_minizinc_def classify_def)

section \<open>Classification of a completed run\<close>

text \<open>
  Claim C10. A process that returns code 0 is classified \<open>SAT\<close> or \<open>UNSAT\<close>, never
  \<open>TIMEOUT\<close> or \<open>ERROR\<close>, whatever the measured time, the timeout and the captured
  stderr are: the two zero-exit branches come first in the chain.
\<close>

theorem zero_exit_sat_or_unsat:
  "status (run_minizinc timeout elapsed_time (Completed 0 out err)) \<in> {SAT, UNSAT}"
  by (simp add: run_minizinc_def classify_def)

text \<open>
  Claim C3. For a process that returns code 0 the status is \<open>SAT\<close> exactly when the
  captured stdout contains the marker \<open>Q = \<close>, and \<open>UNSAT\<close> otherwise; the solution
  count is the number of occurrences of the marker in that text, that is the number of
  positions at which the four characters of the marker stand (none when the marker is
  absent).
\<close>

theorem zero_exit_marker_classification:
  "status (run_minizinc timeout elapsed_time (Completed 0 out err)) =
     (if contains ''Q = '' out then SAT else UNSAT) \<and>
   solutions (run_minizinc timeout elapsed_time (Completed 0 out err)) =
     card {i. i < length out \<and> take 4 (drop i out) = ''Q = ''}"
proof -
  have "card {i. i < length out \<and> take 4 (drop i out) = ''Q = ''} = 0"
    if "\<not> contains ''Q = '' out"
    using that count_sub_pos_iff [of "''Q = ''" out] count_sub_marker_card [of out] by simp
  then show ?thesis
    by (simp add: run_minizinc_def classify_def count_sub_marker_card)
qed

text \<open>Two solutions printed, two counted; and the marker is a substring test on the text.\<close>

lemma two_solutions_counted:
  "solutions (run_minizinc 300 2 (Completed 0 ''Q = [1, 3, 0, 2]; Q = [2, 0, 3, 1];'' [])) = 2"
  by (simp add: run_minizinc_def classify_def count_sub.simps)

lemma contains_marker_iff:
  "contains ''Q = '' out \<longleftrightarrow> (\<exists>i < length out. take 4 (drop i out) = ''Q = '')"
proof -
  have "0 < card {i. i < length out \<and> take 4 (drop i out) = ''Q = ''} \<longleftrightarrow>
      (\<exists>i < length out. take 4 (drop i out) = ''Q = '')"
    by (auto simp add: card_gt_0_iff)
  with count_sub_pos_iff [of "''Q = ''" out] count_sub_marker_card [of out] show ?thesis
    by simp
qed

text \<open>
  Claim C8. On every return path of the runner (completed, cut at the timeout, any other
  exception) a \<open>SAT\<close> outcome has at least one solution and an \<open>UNSAT\<close>, \<open>TIMEOUT\<close> or
  \<open>ERROR\<close> outcome has none.
\<close>

theorem solution_count_invariant:
  "(status (run_minizinc timeout elapsed_time result) = SAT \<longrightarrow>
      1 \<le> solutions (run_minizinc timeout elapsed_time result)) \<and>
   (status (run_minizinc timeout elapsed_time result) \<in> {UNSAT, TIMEOUT, ERROR} \<longrightarrow>
      solutions (run_minizinc timeout elapsed_time result) = 0)"
proof (cases result)
  case (Completed rc out err)
  have "0 < count_sub ''Q = '' out" if "contains ''Q = '' out"
    using that count_sub_pos_iff [of "''Q = ''" out] by simp
  then show ?thesis
    using Completed by (auto simp add: run_minizinc_def classify_def)
next
  case TimeoutExpired
  then show ?thesis by (simp add: run_minizinc_def)
next
  case OtherException
  then show ?thesis by (simp add: run_minizinc_def)
qed

theorem solution_count_invariant_witness:
  "status (run_minizinc 300 2 (Completed 0 ''Q = [1, 3, 0, 2]'' [])) = SAT \<and>
   1 \<le> solutions (run_minizinc 300 2 (Completed 0 ''Q = [1, 3, 0, 2]'' [])) \<and>
   status (run_minizinc 300 2 (Completed 1 ''Q = [1, 3, 0, 2]'' [])) \<in> {UNSAT, TIMEOUT, ERROR} \<and>
   solutions (run_minizinc 300 2 (Completed 1 ''Q = [1, 3, 0, 2]'' [])) = 0"
proof -
  have a: "status (run_minizinc 300 2 (Completed 0 ''Q = [1, 3, 0, 2]'' [])) = SAT"
    by (simp add: run_minizinc_def classify_def)
  have b: "status (run_minizinc 300 2 (Completed 1 ''Q = [1, 3, 0, 2]'' [])) \<in> {UNSAT, TIMEOUT, ERROR}"
    by (simp add: run_minizinc_def classify_def)
  from a b solution_count_invariant [of 300 2 "Completed 0 ''Q = [1, 3, 0, 2]'' []"]
    solution_count_invariant [of 300 2 "Completed 1 ''Q = [1, 3, 0, 2]'' []"]
  show ?thesis by blast
qed
section \<open>Evaluating the readers\<close>

text \<open>
  A character outside the two ranges of capital letters is its own lower case; with this
  fact and the lower case of the capital letters \<open>A\<close>..\<open>Z\<close>, \<open>lower\<close> is evaluated on a
  given text without going through the whole table for each character.
\<close>

lemma upper_chars_codes:
  "c \<in> set upper_chars \<Longrightarrow> of_char c \<in> {65..90::nat} \<union> {192..222}"
  by (auto simp add: upper_chars_def)

lemma lower_char_other:
  assumes "of_char c \<notin> {65..90::nat} \<union> {192..222}"
  shows "lower_char c = c"
proof -
  have "length upper_chars = length lower_chars"
    by (simp add: upper_chars_def lower_chars_def)
  then have "map fst (zip upper_chars lower_chars) = upper_chars"
    by (rule map_fst_zip)
  then have "fst ` set (zip upper_chars lower_chars) = set upper_chars"
    by (metis set_map)
  with assms upper_chars_codes [of c] have "map_of (zip upper_chars lower_chars) c = None"
    by (auto simp add: map_of_eq_None_iff)
  then show ?thesis
    by (simp add: lower_char_def)
qed

lemma lower_char_upper:
  "lower_char CHR ''A'' = CHR ''a''" "lower_char CHR ''B'' = CHR ''b''"
  "lower_char CHR ''C'' = CHR ''c''" "lower_char CHR ''D'' = CHR ''d''"
  "lower_char CHR ''E'' = CHR ''e''" "lower_char CHR ''F'' = CHR ''f''"
  "lower_char CHR ''G'' = CHR ''g''" "lower_char CHR ''H'' = CHR ''h''"
  "lower_char CHR ''I'' = CHR ''i''" "lower_char CHR ''J'' = CHR ''j''"
  "lower_char CHR ''K'' = CHR ''k''" "lower_char CHR ''L'' = CHR ''l''"
  "lower_char CHR ''M'' = CHR ''m''" "lower_char CHR ''N'' = CHR ''n''"
  "lower_char CHR ''O'' = CHR ''o''" "lower_char CHR ''P'' = CHR ''p''"
  "lower_char CHR ''Q'' = CHR ''q''" "lower_char CHR ''R'' = CHR ''r''"
  "lower_char CHR ''S'' = CHR ''s''" "lower_char CHR ''T'' = CHR ''t''"
  "lower_char CHR ''U'' = CHR ''u''" "lower_char CHR ''V'' = CHR ''v''"
  "lower_char CHR ''W'' = CHR ''w''" "lower_char CHR ''X'' = CHR ''x''"
  "lower_char CHR ''Y'' = CHR ''y''" "lower_char CHR ''Z'' = CHR ''z''"
  by (simp_all add: lower_char_def upper_chars_def lower_chars_def)

lemmas lower_defs = lower_def lower_char_other lower_char_upper

lemmas int_defs = py_int_def numeric_strip_def is_numeric_space_def is_digit_def
  nat_of_digits_def digit_val_def signed_digitpart_def max_str_digits_def

lemmas float_defs = py_float_def numeric_strip_def is_numeric_space_def absfloatvalue_def
  lower_defs floatnumber_def mantissa_def opt_digitpart_def is_digit_def nat_of_digits_def
  digit_val_def signed_digitpart_def binary64_def ilog2_def round_half_even_def
  bit_length.simps Let_def

section \<open>The recorded time\<close>

lemma scan_line_time:
  "time (scan_line st l) = (case solve_time_of l of None \<Rightarrow> time st | Some v \<Rightarrow> Some v)"
  by (simp add: scan_line_def solve_time_of_def split: option.splits)

lemma scan_lines_time:
  "time (scan_lines st ls) =
     (if List.map_filter solve_time_of ls = [] then time st
      else Some (last (List.map_filter solve_time_of ls)))"
  unfolding scan_lines_def
proof (induction ls arbitrary: st)
  case Nil
  show ?case by (simp add: List.map_filter_simps)
next
  case (Cons l ls)
  show ?case
    by (simp add: Cons.IH scan_line_time List.map_filter_simps split: option.splits)
qed

lemma classify_time [simp]: "time (classify timeout elapsed_time rc out err st) = time st"
  by (simp add: classify_def)

text \<open>
  Claim C1, as the code has it. The time of a completed run starts as the reading of the
  runner's clock, and every stdout line that reaches the \<open>solveTime\<close> branch with a token
  that reads as a float overwrites it: the outcome carries the value of the last such
  line, and the clock reading only when there is none. A run cut at the timeout carries
  the timeout itself.
\<close>

theorem recorded_time:
  "time (run_minizinc timeout elapsed_time (Completed rc out err)) =
     Some (last (Finite elapsed_time # List.map_filter solve_time_of (split CHR 0x0A out))) \<and>
   time (run_minizinc timeout elapsed_time TimeoutExpired) = Some (Finite timeout)"
  by (simp add: run_minizinc_def scan_lines_time)

text \<open>
  The claim as stated fails: the clock read 2 seconds, the solver printed
  \<open>solveTime=0.5\<close>, and the outcome carries 0.5.
\<close>

theorem recorded_time_counterexample:
  "time (run_minizinc 300 2 (Completed 0 ''%%%mzn-stat: solveTime=0.5'' [])) =
     Some (Finite (1 / 2)) \<and>
   Finite (1 / 2) \<noteq> Finite 2"
  by (simp add: run_minizinc_def classify_def scan_lines_def scan_line_def float_token_def
      field1_def lower_defs strip_def is_space_def replace.simps float_defs)

text \<open>
  What the token readers accept, on four lines: a no-break space before the number is
  white space for \<open>str.strip\<close>; a separator \<open>U+001C\<close> is stripped by the scan but is not
  white space for \<open>int\<close> itself; \<open>inf\<close> is a float; and the unit is removed wherever it
  stands.
\<close>

lemma token_examples:
  "int_token (''nodes='' @ [CHR 0xA0] @ ''5'') = Some 5"
  "int_token (''nodes='' @ [CHR 0x1C] @ ''5'') = Some 5"
  "py_int ([CHR 0x1C] @ ''5'') = None"
  "float_token (''solveTime='' @ [CHR 0xA0] @ ''0.5'') = Some (Finite (1 / 2))"
  "float_token ''solveTime=inf'' = Some PInf"
  "float_token ''solveTime=1ms5'' = Some (Finite 15)"
  by (simp_all add: int_token_def float_token_def field1_def strip_def is_space_def
      replace.simps int_defs float_defs)

lemma solve_time_inf:
  "time (run_minizinc 300 2 (Completed 0 ''solveTime=inf'' [])) = Some PInf"
  by (simp add: run_minizinc_def classify_def scan_lines_def scan_line_def float_token_def
      field1_def lower_defs strip_def is_space_def replace.simps float_defs)

section \<open>The \<open>TIMEOUT\<close> status\<close>

text \<open>
  Claim C2, as the code has it. An outcome is \<open>TIMEOUT\<close> in two ways only: the wait was
  cut at the timeout, and then the recorded time is the timeout itself; or the process
  returned a non-zero code and either its stderr contains \<open>TIMEOUT\<close> or the measured time
  is at least the timeout minus one second.
\<close>

theorem timeout_status_cases:
  "status (run_minizinc timeout elapsed_time result) = TIMEOUT \<Longrightarrow>
     (result = TimeoutExpired \<and>
        time (run_minizinc timeout elapsed_time result) = Some (Finite timeout)) \<or>
     (\<exists>rc out err. result = Completed rc out err \<and> rc \<noteq> 0 \<and>
        (contains ''TIMEOUT'' err \<or> timeout - 1 \<le> elapsed_time))"
  by (cases result) (auto simp add: run_minizinc_def classify_def split: if_splits)

theorem timeout_status_cases_witness:
  "status (run_minizinc 300 (599 / 2) (Completed 1 [] [])) = TIMEOUT \<and>
   (contains ''TIMEOUT'' [] \<or> (300 :: real) - 1 \<le> 599 / 2) \<and>
   status (run_minizinc 300 0 TimeoutExpired) = TIMEOUT \<and>
   time (run_minizinc 300 0 TimeoutExpired) = Some (Finite 300)"
proof -
  have a: "status (run_minizinc 300 (599 / 2) (Completed 1 [] [])) = TIMEOUT"
    by (simp add: run_minizinc_def classify_def)
  have b: "status (run_minizinc 300 0 TimeoutExpired) = TIMEOUT"
    by (simp add: run_minizinc_def)
  from timeout_status_cases [OF a] timeout_status_cases [OF b] a b
  show ?thesis by auto
qed

text \<open>
  The claim as stated fails: a process that exits with code 1 after a tenth of a second
  and has \<open>TIMEOUT\<close> in its stderr is classified \<open>TIMEOUT\<close>, with a timeout of 300 seconds.
\<close>

theorem timeout_status_counterexample:
  "status (run_minizinc 300 (1 / 10) (Completed 1 [] ''TIMEOUT'')) = TIMEOUT \<and>
   time (run_minizinc 300 (1 / 10) (Completed 1 [] ''TIMEOUT'')) = Some (Finite (1 / 10)) \<and>
   (1 / 10 :: real) < 300 - 1"
  by (simp add: run_minizinc_def classify_def scan_lines_def scan_line_def lower_def)
section \<open>Lines whose token cannot be read\<close>

lemma malformed_scan_line: "malformed l \<Longrightarrow> scan_line st l = st"
  by (simp add: malformed_def scan_line_def split: if_splits)

text \<open>
  Claim C7. A line that matches a key and whose token cannot be read leaves every field
  as it was (so an absent field stays absent and none is set to zero), and the scan goes
  on: the lines before and after it are read as if it were not there.
\<close>

theorem malformed_line_ignored:
  "malformed l \<Longrightarrow>
     scan_line st l = st \<and> scan_lines st (ls @ l # rs) = scan_lines st (ls @ rs)"
  by (simp add: scan_lines_def malformed_scan_line)

theorem malformed_line_ignored_witness:
  "malformed ''nodes = 12x'' \<and>
   scan_line \<lparr>status = UNKNOWN, time = Some (Finite 2), nodes = None, failures = None,
     propagations = None, solutions = 0\<rparr> ''nodes = 12x'' =
     \<lparr>status = UNKNOWN, time = Some (Finite 2), nodes = None, failures = None,
      propagations = None, solutions = 0\<rparr> \<and>
   scan_lines \<lparr>status = UNKNOWN, time = Some (Finite 2), nodes = None, failures = None,
     propagations = None, solutions = 0\<rparr> ([''failures = 3''] @ ''nodes = 12x'' # [''fails = 4'']) =
   scan_lines \<lparr>status = UNKNOWN, time = Some (Finite 2), nodes = None, failures = None,
     propagations = None, solutions = 0\<rparr> ([''failures = 3''] @ [''fails = 4''])"
proof -
  have m: "malformed ''nodes = 12x''"
    by (simp add: malformed_def lower_defs int_token_def field1_def strip_def is_space_def
        int_defs)
  from m malformed_line_ignored [OF m] show ?thesis by blast
qed

section \<open>The batch\<close>

lemma run_size_csv:
  "map run_spec (csv (foldl (run_size timeout e m) b ns)) =
     map run_spec (csv b) @ map (Pair m) (filter (data_exists e) ns)"
  by (induction ns arbitrary: b) (simp_all add: run_size_def run_spec_def Let_def)

lemma run_size_console_mono:
  "set (console b) \<subseteq> set (console (foldl (run_size timeout e m) b ns))"
proof (induction ns arbitrary: b)
  case Nil
  show ?case by simp
next
  case (Cons n ns)
  have "set (console b) \<subseteq> set (console (run_size timeout e m b n))"
    by (auto simp add: run_size_def Let_def)
  with Cons [of "run_size timeout e m b n"] show ?case by auto
qed

lemma run_size_console:
  "n \<in> set ns \<Longrightarrow> \<not> data_exists e n \<Longrightarrow>
     DataNotFound n \<in> set (console (foldl (run_size timeout e m) b ns))"
proof (induction ns arbitrary: b)
  case Nil
  then show ?case by simp
next
  case (Cons k ns)
  show ?case
  proof (cases "k = n")
    case True
    with Cons.prems have "DataNotFound n \<in> set (console (run_size timeout e m b k))"
      by (simp add: run_size_def)
    with run_size_console_mono [of "run_size timeout e m b k" timeout e m ns]
    show ?thesis by auto
  next
    case False
    with Cons show ?thesis by simp
  qed
qed

lemma run_model_csv:
  "map run_spec (csv (run_model timeout ns e b m)) =
     map run_spec (csv b) @ filter (\<lambda>x. \<not> skipped e x) (map (Pair m) ns)"
  by (simp add: run_model_def run_size_csv skipped_def filter_map comp_def)

lemma run_model_console_mono:
  "set (console b) \<subseteq> set (console (run_model timeout ns e b m))"
  using run_size_console_mono [of b timeout e m ns] by (auto simp add: run_model_def)

lemma run_model_console:
  "n \<in> set ns \<Longrightarrow> skipped e (m, n) \<Longrightarrow>
     ModelNotFound (fst m) \<in> set (console (run_model timeout ns e b m)) \<or>
     DataNotFound n \<in> set (console (run_model timeout ns e b m))"
  using run_size_console [of n ns e timeout m b] by (auto simp add: run_model_def skipped_def)

lemma foldl_run_model_csv:
  "map run_spec (csv (foldl (run_model timeout ns e) b ms)) =
     map run_spec (csv b) @ filter (\<lambda>x. \<not> skipped e x) (List.product ms ns)"
  by (induction ms arbitrary: b) (simp_all add: run_model_csv)

lemma foldl_run_model_console_mono:
  "set (console b) \<subseteq> set (console (foldl (run_model timeout ns e) b ms))"
proof (induction ms arbitrary: b)
  case Nil
  show ?case by simp
next
  case (Cons m ms)
  from Cons [of "run_model timeout ns e b m"] run_model_console_mono [of b timeout ns e m]
  show ?case by auto
qed

lemma foldl_run_model_console:
  "m \<in> set ms \<Longrightarrow> n \<in> set ns \<Longrightarrow> skipped e (m, n) \<Longrightarrow>
     ModelNotFound (fst m) \<in> set (console (foldl (run_model timeout ns e) b ms)) \<or>
     DataNotFound n \<in> set (console (foldl (run_model timeout ns e) b ms))"
proof (induction ms arbitrary: b)
  case Nil
  then show ?case by simp
next
  case (Cons k ms)
  show ?case
  proof (cases "k = m")
    case True
    from run_model_console [OF Cons.prems(2,3), of timeout b]
      foldl_run_model_console_mono [of "run_model timeout ns e b m" timeout ns e ms] True
    show ?thesis by auto
  next
    case False
    with Cons show ?thesis by simp
  qed
qed

text \<open>
  Claim C9. The batch is a total function of what it finds: a run request whose model
  file or data file is absent is not launched, a warning naming the missing model or the
  missing data file is on the console, and the other requests go on. The rows written
  are those of the requests that are not skipped, in order, so their number and the
  number of skipped requests add up to the number of requests.
\<close>

theorem missing_inputs_skipped:
  "map run_spec (csv (run_batch models n_values timeout e)) =
     filter (\<lambda>x. \<not> skipped e x) (List.product models n_values) \<and>
   length (csv (run_batch models n_values timeout e)) +
     length (filter (skipped e) (List.product models n_values)) =
     length models * length n_values \<and>
   (\<forall>x \<in> set (List.product models n_values). skipped e x \<longrightarrow>
      ModelNotFound (fst (fst x)) \<in> set (console (run_batch models n_values timeout e)) \<or>
      DataNotFound (snd x) \<in> set (console (run_batch models n_values timeout e)))"
proof -
  let ?b = "run_batch models n_values timeout e"
  let ?all = "List.product models n_values"
  have rows: "map run_spec (csv ?b) = filter (\<lambda>x. \<not> skipped e x) ?all"
    by (simp add: run_batch_def foldl_run_model_csv)
  have "length (csv ?b) = length (filter (\<lambda>x. \<not> skipped e x) ?all)"
    using arg_cong [OF rows, of length] by simp
  moreover have "length (filter (\<lambda>x. \<not> skipped e x) ?all) + length (filter (skipped e) ?all)
      = length ?all"
    using sum_length_filter_compl [of "skipped e" ?all] by simp
  ultimately have count: "length (csv ?b) + length (filter (skipped e) ?all)
      = length models * length n_values"
    by simp
  have warn: "\<forall>x \<in> set ?all. skipped e x \<longrightarrow>
      ModelNotFound (fst (fst x)) \<in> set (console ?b) \<or> DataNotFound (snd x) \<in> set (console ?b)"
  proof (intro ballI impI)
    fix x assume x: "x \<in> set ?all" and s: "skipped e x"
    from x have "fst x \<in> set models" and "snd x \<in> set n_values"
      by auto
    moreover from s have "skipped e (fst x, snd x)"
      by simp
    ultimately show "ModelNotFound (fst (fst x)) \<in> set (console ?b) \<or> DataNotFound (snd x) \<in> set (console ?b)"
      unfolding run_batch_def by (rule foldl_run_model_console)
  qed
  from rows count warn show ?thesis by blast
qed

theorem missing_inputs_skipped_witness:
  "((''b.mzn'', ''B''), 8) \<in> set (List.product [(''a.mzn'', ''A''), (''b.mzn'', ''B'')] [8, 10]) \<and>
   skipped \<lparr>model_exists = (\<lambda>m. m = ''a.mzn''), data_exists = (\<lambda>n. n = 8),
            process = (\<lambda>m n. (1, Completed 0 ''Q = [1]'' []))\<rparr> ((''b.mzn'', ''B''), 8) \<and>
   (ModelNotFound ''b.mzn'' \<in> set (console (run_batch [(''a.mzn'', ''A''), (''b.mzn'', ''B'')] [8, 10] 300
        \<lparr>model_exists = (\<lambda>m. m = ''a.mzn''), data_exists = (\<lambda>n. n = 8),
         process = (\<lambda>m n. (1, Completed 0 ''Q = [1]'' []))\<rparr>)) \<or>
    DataNotFound 8 \<in> set (console (run_batch [(''a.mzn'', ''A''), (''b.mzn'', ''B'')] [8, 10] 300
        \<lparr>model_exists = (\<lambda>m. m = ''a.mzn''), data_exists = (\<lambda>n. n = 8),
         process = (\<lambda>m n. (1, Completed 0 ''Q = [1]'' []))\<rparr>))) \<and>
   length (csv (run_batch [(''a.mzn'', ''A''), (''b.mzn'', ''B'')] [8, 10] 300
        \<lparr>model_exists = (\<lambda>m. m = ''a.mzn''), data_exists = (\<lambda>n. n = 8),
         process = (\<lambda>m n. (1, Completed 0 ''Q = [1]'' []))\<rparr>)) = 1"
proof -
  let ?e = "\<lparr>model_exists = (\<lambda>m. m = ''a.mzn''), data_exists = (\<lambda>n. n = (8::int)),
            process = (\<lambda>m n. (1::real, Completed 0 ''Q = [1]'' []))\<rparr>"
  let ?ms = "[(''a.mzn'', ''A''), (''b.mzn'', ''B'')]"
  let ?ns = "[8, 10 :: int]"
  have mem: "((''b.mzn'', ''B''), 8) \<in> set (List.product ?ms ?ns)"
    by simp
  have skip: "skipped ?e ((''b.mzn'', ''B''), 8)"
    by (simp add: skipped_def)
  have n: "length (filter (skipped ?e) (List.product ?ms ?ns)) = 3"
    by (simp add: skipped_def)
  from missing_inputs_skipped [of ?ms ?ns 300 ?e] mem skip n show ?thesis
    by auto
qed

end
